theory Spec2Isabelle
  imports Main
begin

section \<open>Common JavaScript values\<close>

text \<open>
  Heights and counts are JavaScript numbers that only ever hold integers here; they are
  modelled as \<open>int\<close>. A thrown value is an \<open>exn\<close>: the chain library's \<open>SPVError\<close>, a
  plain \<open>Error\<close> with its message, the \<open>TypeError\<close> the runtime raises when a property
  of \<open>null\<close> or \<open>undefined\<close> is read, or an error of the transport.
\<close>

type_synonym header = string
type_synonym hash = string
type_synonym address = string

datatype exn =
    SPVError string
  | Error string
  | ErrorWith string "int list"
  | TypeError string
  | GrpcError int string

text \<open>
  \<open>ErrorWith t ns\<close> is an \<open>Error\<close> whose message is the template \<open>t\<close> with the numbers
  \<open>ns\<close> interpolated; \<open>GrpcError c m\<close> is a transport error carrying a numeric \<open>code\<close>.
  \<open>e instanceof SPVError\<close> and \<open>e.code\<close>:
\<close>

fun instanceofSPVError :: "exn \<Rightarrow> bool" where
  "instanceofSPVError (SPVError m) = True"
| "instanceofSPVError e = False"

fun code :: "exn \<Rightarrow> int option" where
  "code (GrpcError c m) = Some c"
| "code e = None"

text \<open>\<open>GrpcErrorCodes.CANCELLED\<close>; the unit tests cancel a stream with \<open>{code: 1}\<close>.\<close>

definition CANCELLED :: int where
  "CANCELLED = 1"

text \<open>
  Truthiness of a property read \<open>obj[key]\<close> whose values are strings: a missing key is
  \<open>undefined\<close> (falsy), and so is the empty string.
\<close>

fun truthy :: "string option \<Rightarrow> bool" where
  "truthy None = False"
| "truthy (Some s) = (s \<noteq> [])"

section \<open>BlockHeadersProvider (js-dapi-client/lib/BlockHeadersProvider/BlockHeadersProvider.js)\<close>

subsection \<open>Data\<close>

datatype STATES = IDLE | HISTORICAL_SYNC | CONTINUOUS_SYNC

fun stateName :: "STATES \<Rightarrow> string" where
  "stateName IDLE = ''IDLE''"
| "stateName HISTORICAL_SYNC = ''HISTORICAL_SYNC''"
| "stateName CONTINUOUS_SYNC = ''CONTINUOUS_SYNC''"

text \<open>The events the Provider emits (\<open>EVENTS\<close>), with their arguments.\<close>

datatype EVENTS =
    ERROR exn
  | CHAIN_UPDATED "header list" int
  | HISTORICAL_DATA_OBTAINED
  | STOPPED

text \<open>
  The Reader is an event emitter the Provider registers three of its bound methods on.
  A listener is the Reader's event name with the Provider method registered for it.
\<close>

datatype readerEvent = BLOCK_HEADERS | READER_ERROR | READER_HISTORICAL_DATA_OBTAINED
datatype handler = HandleHeaders | HandleError | HandleHistoricalDataObtained

type_synonym listener = "readerEvent \<times> handler"

record reader =
  listeners :: "listener list"

text \<open>
  The SPV chain is an external collaborator. The Provider uses four of its members; they
  are taken as parameters over an arbitrary chain state \<open>'c\<close>. \<open>addHeaders\<close> and \<open>validate\<close>
  may throw, and may have changed the chain before they do.
\<close>

record 'c chainOps =
  hashesByHeight :: "'c \<Rightarrow> int \<Rightarrow> hash option"
  reset :: "int \<Rightarrow> 'c \<Rightarrow> 'c"
  addHeaders :: "header list \<Rightarrow> int \<Rightarrow> 'c \<Rightarrow> 'c \<times> (exn + header list)"
  validate :: "'c \<Rightarrow> 'c \<times> exn option"

text \<open>
  Everything the Provider does to the outside, in the order it does it: the events it emits,
  the calls into the chain and the Reader, and the call of a batch's \<open>reject\<close> callback.
\<close>

datatype effect =
    Emit EVENTS
  | ChainReset int
  | ChainAddHeaders "header list" int
  | ChainValidate
  | ReaderReadHistorical int int
  | ReaderSubscribeToNew int
  | ReaderStopReadingHistorical
  | ReaderUnsubscribeFromNew
  | Reject exn

record 'c provider =
  spvChain :: 'c
  state :: STATES
  wasmX11Ready :: bool
  coreMethods :: bool
  blockHeadersReader :: "reader option"
  trace :: "effect list"

text \<open>
  A method returns the Provider as it is when the method ends, and the exception that ended
  it, if one did: assignments made before a \<open>throw\<close> stay.
\<close>

type_synonym 'c result = "'c provider \<times> exn option"

subsection \<open>Methods\<close>

definition perform :: "effect \<Rightarrow> 'c provider \<Rightarrow> 'c provider" where
  "perform x p = p\<lparr>trace := trace p @ [x]\<rparr>"

definition emit :: "EVENTS \<Rightarrow> 'c provider \<Rightarrow> 'c provider" where
  "emit ev p = perform (Emit ev) p"

text \<open>\<open>emitter.on(event, handler)\<close> and \<open>emitter.removeListener(event, handler)\<close>\<close>

definition on :: "listener \<Rightarrow> reader \<Rightarrow> reader" where
  "on l r = r\<lparr>listeners := listeners r @ [l]\<rparr>"

definition removeListener :: "listener \<Rightarrow> reader \<Rightarrow> reader" where
  "removeListener l r = r\<lparr>listeners := remove1 l (listeners r)\<rparr>"

text \<open>\<open>removeReaderListeners\<close> reads \<open>this.blockHeadersReader.removeListener\<close>: a TypeError
  when the Reader is \<open>null\<close>.\<close>

definition removeReaderListeners :: "'c provider \<Rightarrow> 'c result" where
  "removeReaderListeners p =
     (case blockHeadersReader p of
        None \<Rightarrow> (p, Some (TypeError ''Cannot read properties of null (reading removeListener)''))
      | Some r \<Rightarrow>
          (p\<lparr>blockHeadersReader :=
               Some (removeListener (READER_HISTORICAL_DATA_OBTAINED, HandleHistoricalDataObtained)
                      (removeListener (BLOCK_HEADERS, HandleHeaders)
                        (removeListener (READER_ERROR, HandleError) r)))\<rparr>, None))"

definition destroyReader :: "'c provider \<Rightarrow> 'c result" where
  "destroyReader p =
     (case removeReaderListeners p of
        (p1, Some e) \<Rightarrow> (p1, Some e)
      | (p1, None) \<Rightarrow> (p1\<lparr>blockHeadersReader := None\<rparr>, None))"

definition handleError :: "exn \<Rightarrow> 'c provider \<Rightarrow> 'c result" where
  "handleError e p =
     (case destroyReader p of
        (p1, Some t) \<Rightarrow> (p1, Some t)
      | (p1, None) \<Rightarrow> (emit (ERROR e) p1, None))"

text \<open>
  \<open>init\<close>: the hash function is set up once, a Reader is created when there is none, and
  \<open>handleHeaders\<close> and \<open>handleError\<close> are registered on it.
\<close>

definition init :: "'c provider \<Rightarrow> 'c provider" where
  "init p =
     (let r = (case blockHeadersReader p of None \<Rightarrow> \<lparr>listeners = []\<rparr> | Some r \<Rightarrow> r)
      in p\<lparr>wasmX11Ready := True,
           blockHeadersReader := Some (on (READER_ERROR, HandleError) (on (BLOCK_HEADERS, HandleHeaders) r))\<rparr>)"

definition ensureChainRoot :: "'c chainOps \<Rightarrow> int \<Rightarrow> 'c provider \<Rightarrow> 'c provider" where
  "ensureChainRoot ops height p =
     (if \<not> truthy (hashesByHeight ops (spvChain p) (height - 1))
      then perform (ChainReset height) (p\<lparr>spvChain := reset ops height (spvChain p)\<rparr>)
      else p)"

text \<open>
  \<open>readHistorical(fromBlockHeight = 1, toBlockHeight)\<close>: an omitted first argument is
  \<open>None\<close>. \<open>opened\<close> is what the Reader's own \<open>readHistorical\<close> does when awaited: \<open>None\<close> when
  it resolves, the error when it rejects. The method is taken as one step: no event of the
  Reader is handled between its call of the Reader and its assignment of the state. The
  listener registered with \<open>once\<close> is removed by the handler itself, in
  \<open>removeReaderListeners\<close>.
\<close>

definition readHistorical ::
    "'c chainOps \<Rightarrow> int option \<Rightarrow> int \<Rightarrow> exn option \<Rightarrow> 'c provider \<Rightarrow> 'c result" where
  "readHistorical ops fromArg toBlockHeight opened p =
     (let fromBlockHeight = (case fromArg of None \<Rightarrow> 1 | Some h \<Rightarrow> h) in
      if \<not> coreMethods p then
        (p, Some (Error ''Core methods have not been provided. Please use \"setCoreMethods\"''))
      else if state p \<noteq> IDLE then
        (p, Some (Error (''BlockHeaderProvider can not read historical data while being in ''
                          @ stateName (state p) @ '' state.'')))
      else
        let p1 = ensureChainRoot ops fromBlockHeight (init p);
            p2 = p1\<lparr>blockHeadersReader :=
                      map_option (on (READER_HISTORICAL_DATA_OBTAINED, HandleHistoricalDataObtained))
                        (blockHeadersReader p1)\<rparr>;
            p3 = perform (ReaderReadHistorical fromBlockHeight toBlockHeight) p2
        in (case opened of
              Some e \<Rightarrow> (p3, Some e)
            | None \<Rightarrow> (p3\<lparr>state := HISTORICAL_SYNC\<rparr>, None)))"

definition startContinuousSync ::
    "'c chainOps \<Rightarrow> int \<Rightarrow> exn option \<Rightarrow> 'c provider \<Rightarrow> 'c result" where
  "startContinuousSync ops fromBlockHeight opened p =
     (if \<not> coreMethods p then
        (p, Some (Error ''Core methods have not been provided. Please use \"setCoreMethods\"''))
      else if state p \<noteq> IDLE then
        (p, Some (Error (''BlockHeaderProvider can not sync continuous data while being in ''
                          @ stateName (state p) @ '' state.'')))
      else
        let p1 = ensureChainRoot ops fromBlockHeight (init p);
            p2 = perform (ReaderSubscribeToNew fromBlockHeight) p1
        in (case opened of
              Some e \<Rightarrow> (p2, Some e)
            | None \<Rightarrow> (p2\<lparr>state := CONTINUOUS_SYNC\<rparr>, None)))"

text \<open>
  \<open>stop\<close>: outside \<open>IDLE\<close> the first thing done is a call of a method of
  \<open>this.blockHeadersReader\<close>, a TypeError when the Reader is \<open>null\<close>.
\<close>

definition stop :: "'c provider \<Rightarrow> 'c result" where
  "stop p =
     (if state p = IDLE then (p, None)
      else if state p = HISTORICAL_SYNC then
        (case blockHeadersReader p of
           None \<Rightarrow>
             (p, Some (TypeError ''Cannot read properties of null (reading stopReadingHistorical)''))
         | Some r \<Rightarrow>
             (case destroyReader (perform ReaderStopReadingHistorical p) of
                (p2, Some e) \<Rightarrow> (p2, Some e)
              | (p2, None) \<Rightarrow> (emit STOPPED (p2\<lparr>state := IDLE\<rparr>), None)))
      else
        (case blockHeadersReader p of
           None \<Rightarrow>
             (p, Some (TypeError ''Cannot read properties of null (reading unsubscribeFromNew)''))
         | Some r \<Rightarrow>
             (case destroyReader (perform ReaderUnsubscribeFromNew p) of
                (p2, Some e) \<Rightarrow> (p2, Some e)
              | (p2, None) \<Rightarrow> (emit STOPPED (p2\<lparr>state := IDLE\<rparr>), None))))"

text \<open>
  \<open>handleHeaders({headers, headHeight}, reject)\<close>. The call of \<open>reject\<close> is recorded in the
  trace, and so is every event emitted. The users of the Provider are taken to listen for
  \<open>error\<close> (an emitter nobody listens to throws the error instead) and their listeners not
  to throw.
\<close>

definition handleHeaders ::
    "'c chainOps \<Rightarrow> header list \<Rightarrow> int \<Rightarrow> 'c provider \<Rightarrow> 'c result" where
  "handleHeaders ops headers headHeight p =
     (case addHeaders ops headers headHeight (spvChain p) of
        (c, Inr headersAdded) \<Rightarrow>
          (let p1 = perform (ChainAddHeaders headers headHeight) (p\<lparr>spvChain := c\<rparr>) in
           if length headersAdded \<noteq> 0 then
             (let difference = int (length headers) - int (length headersAdded)
              in (emit (CHAIN_UPDATED headersAdded (headHeight + difference)) p1, None))
           else (p1, None))
      | (c, Inl e) \<Rightarrow>
          (let p1 = perform (ChainAddHeaders headers headHeight) (p\<lparr>spvChain := c\<rparr>) in
           if instanceofSPVError e then (perform (Reject e) p1, None)
           else handleError e p1))"

text \<open>
  \<open>handleHistoricalDataObtained\<close>: the \<open>try\<close> block, the \<open>catch\<close> block that takes over where
  the \<open>try\<close> block threw, and the \<open>finally\<close> block that runs in every case and lets an
  exception of the \<open>catch\<close> block through.
\<close>

definition hdoTry :: "'c chainOps \<Rightarrow> 'c provider \<Rightarrow> 'c result" where
  "hdoTry ops p =
     (case validate ops (spvChain p) of
        (c, Some e) \<Rightarrow> (perform ChainValidate (p\<lparr>spvChain := c\<rparr>), Some e)
      | (c, None) \<Rightarrow>
          removeReaderListeners
            (emit HISTORICAL_DATA_OBTAINED (perform ChainValidate (p\<lparr>spvChain := c\<rparr>))))"

definition handleHistoricalDataObtained :: "'c chainOps \<Rightarrow> 'c provider \<Rightarrow> 'c result" where
  "handleHistoricalDataObtained ops p =
     (let (p1, x) = (case hdoTry ops p of
                       (q, Some e) \<Rightarrow> handleError e q
                     | (q, None) \<Rightarrow> (q, None))
      in (p1\<lparr>state := IDLE\<rparr>, x))"

subsection \<open>Events of the Reader\<close>

text \<open>
  What the Reader emits to the Provider: a batch (with its \<open>reject\<close> callback), an error, or
  the end of the historical read. \<open>EventEmitter.emit\<close> takes a copy of the listeners
  registered for the event when it starts and calls them in the order of their registration;
  a listener that throws ends the emission with its exception. A handler registered twice
  is called twice, also when the first call removed the second registration. The listeners
  are those of the Reader the Provider holds when the emission starts.
\<close>

datatype readerEmission =
    BlockHeaders "header list" int
  | ReaderError exn
  | HistoricalDataObtained

fun eventOf :: "readerEmission \<Rightarrow> readerEvent" where
  "eventOf (BlockHeaders headers headHeight) = BLOCK_HEADERS"
| "eventOf (ReaderError e) = READER_ERROR"
| "eventOf HistoricalDataObtained = READER_HISTORICAL_DATA_OBTAINED"

definition listenersOf :: "readerEvent \<Rightarrow> 'c provider \<Rightarrow> handler list" where
  "listenersOf ev p =
     (case blockHeadersReader p of
        None \<Rightarrow> []
      | Some r \<Rightarrow> map snd (filter (\<lambda>l. fst l = ev) (listeners r)))"

text \<open>The bound method a listener stands for, applied to what the event carries.\<close>

fun invoke :: "'c chainOps \<Rightarrow> readerEmission \<Rightarrow> handler \<Rightarrow> 'c provider \<Rightarrow> 'c result" where
  "invoke ops (BlockHeaders headers headHeight) HandleHeaders p =
     handleHeaders ops headers headHeight p"
| "invoke ops (ReaderError e) HandleError p = handleError e p"
| "invoke ops HistoricalDataObtained HandleHistoricalDataObtained p =
     handleHistoricalDataObtained ops p"
| "invoke ops em h p = (p, None)"

fun callListeners :: "('c provider \<Rightarrow> 'c result) list \<Rightarrow> 'c provider \<Rightarrow> 'c result" where
  "callListeners [] p = (p, None)"
| "callListeners (f # fs) p =
     (case f p of
        (p1, Some e) \<Rightarrow> (p1, Some e)
      | (p1, None) \<Rightarrow> callListeners fs p1)"

definition readerEmits :: "'c chainOps \<Rightarrow> readerEmission \<Rightarrow> 'c provider \<Rightarrow> 'c result" where
  "readerEmits ops em p = callListeners (map (invoke ops em) (listenersOf (eventOf em) p)) p"

text \<open>
  A chain in the manner of the one the Provider's unit tests inject: the hashes by height are
  the whole state, \<open>addHeaders\<close> accepts every header it is given, \<open>validate\<close> succeeds and
  \<open>reset\<close> forgets every hash.
\<close>

definition stubChain :: "(int \<Rightarrow> hash option) chainOps" where
  "stubChain =
     \<lparr>hashesByHeight = (\<lambda>c h. c h),
      reset = (\<lambda>h c. Map.empty),
      addHeaders = (\<lambda>hs h c. (c, Inr hs)),
      validate = (\<lambda>c. (c, None))\<rparr>"

definition stubProvider :: "(int \<Rightarrow> hash option) provider" where
  "stubProvider =
     \<lparr>spvChain = [0 \<mapsto> ''0x000000001''], state = IDLE, wasmX11Ready = False,
      coreMethods = True, blockHeadersReader = Some \<lparr>listeners = []\<rparr>, trace = []\<rparr>"

text \<open>
  A Provider whose first \<open>readHistorical(2, 1)\<close> was refused by the Reader (the range holds no
  height, as in the Reader's unit test) and whose second, \<open>readHistorical(1, 10)\<close>, was
  taken: nothing removes the listeners of the first call.
\<close>

definition readTwice :: "'c chainOps \<Rightarrow> 'c provider \<Rightarrow> 'c provider" where
  "readTwice ops p =
     fst (readHistorical ops (Some 1) 10 None
       (fst (readHistorical ops (Some 2) 1
               (Some (ErrorWith ''Invalid total amount of headers to read: '' [0])) p)))"

section \<open>BlockHeadersReader.readHistorical: the partition of a historical read\<close>

text \<open>
  \<open>Math.round(a / b)\<close> and \<open>Math.ceil(a / b)\<close> for integers \<open>a \<ge> 0\<close> and \<open>b > 0\<close>:
  \<open>Math.round\<close> rounds a half upwards.
\<close>

definition round_div :: "int \<Rightarrow> int \<Rightarrow> int" where
  "round_div a b = (2 * a + b) div (2 * b)"

definition ceil_div :: "int \<Rightarrow> int \<Rightarrow> int" where
  "ceil_div a b = (a + b - 1) div b"

text \<open>
  Modelled from the spec: \<open>BlockHeadersReader.readHistorical\<close>
  (lib/BlockHeadersProvider/BlockHeadersReader.js is not among the sources; only its unit
  tests are). The result is the list of sub-streams opened, each with its first height and
  its size, as section 4.1.2 of the specification gives them: a range of fewer than one
  height and a first height below 1 are refused; a total of at most \<open>targetBatchSize \<times> 1.4\<close>
  is read by one sub-stream; otherwise
  \<open>numStreams = min(round(total / targetBatchSize), maxParallelStreams)\<close> sub-streams are
  opened, sub-stream \<open>i\<close> at \<open>fromHeight + i \<times> per\<close> with \<open>per = ceil(total / numStreams)\<close>, all
  of size \<open>per\<close> but the last, of size \<open>total - per \<times> (numStreams - 1)\<close>. The comparison with
  \<open>targetBatchSize \<times> 1.4\<close> is taken exactly, as \<open>5 \<times> total \<le> 7 \<times> targetBatchSize\<close>.
\<close>

definition readHistorical_partition ::
    "int \<Rightarrow> int \<Rightarrow> int \<Rightarrow> int \<Rightarrow> exn + (int \<times> int) list" where
  "readHistorical_partition targetBatchSize maxParallelStreams fromHeight toHeight =
     (let total = toHeight - fromHeight + 1 in
      if fromHeight < 1 then Inl (ErrorWith ''Invalid fromBlockHeight value: '' [fromHeight])
      else if total < 1 then Inl (ErrorWith ''Invalid total amount of headers to read: '' [total])
      else if 5 * total \<le> 7 * targetBatchSize then Inr [(fromHeight, total)]
      else
        let numStreams = min (round_div total targetBatchSize) maxParallelStreams;
            per = ceil_div total numStreams
        in Inr (map (\<lambda>i. (fromHeight + int i * per, per)) [0..<nat (numStreams - 1)]
                @ [(fromHeight + (numStreams - 1) * per, total - per * (numStreams - 1))]))"

section \<open>TransactionsReader (wallet-lib/src/plugins/Workers/TransactionsSyncWorker/TransactionsReader.js)\<close>

subsection \<open>Data\<close>

text \<open>
  A stream is known by a number. What the Reader does to the outside: it opens a stream (the
  Bloom filter is stood for by the addresses it is built from, followed by \<open>fromBlockHeight\<close>
  and \<open>count\<close>), cancels or destroys one, emits \<open>error\<close> or \<open>HISTORICAL_DATA_OBTAINED\<close>, or
  calls the transport's \<open>updateArguments\<close>.
\<close>

type_synonym stream = nat

datatype action =
    CreateHistoricalSyncStream "address list" int int
  | CreateContinuousSyncStream "address list" int int
  | Cancel stream
  | Destroy stream exn
  | EmitError exn
  | EmitHistoricalDataObtained
  | UpdateArguments "address list" int int

text \<open>The \<open>rejected\<close> and \<open>accepted\<close> flags a merkle block's two callbacks share.\<close>

record latch =
  rejected :: bool
  accepted :: bool

definition newLatch :: latch where
  "newLatch = \<lparr>rejected = False, accepted = False\<rparr>"

text \<open>A callback returns the flags and the variables as it leaves them, what it did, and
  the exception it threw to its caller, if any.\<close>

type_synonym 's callback = "(latch \<times> 's) \<times> action list \<times> exn option"

subsection \<open>Historical sync\<close>

datatype restart = RestartArgs (raFromBlockHeight: int) (raCount: int) (raAddresses: "address list")

text \<open>
  The variables one call of \<open>subscribeWithRetries\<close> closes over (\<open>stream\<close>,
  \<open>fromBlockHeight\<close>, \<open>count\<close>, \<open>addresses\<close>, \<open>lastSyncedBlockHeight\<close>, \<open>restartArgs\<close>),
  with those it shares with the other calls: \<open>maxRetries\<close> and \<open>currentRetries\<close> of
  \<open>subscribeToHistoricalBatch\<close>, and the Reader's \<open>historicalSyncStream\<close>.
\<close>

record hist =
  maxRetries :: int
  currentRetries :: int
  historicalSyncStream :: "stream option"
  stream :: stream
  fromBlockHeight :: int
  count :: int
  addresses :: "address list"
  lastSyncedBlockHeight :: int
  restartArgs :: "restart option"

text \<open>\<open>subscribeWithRetries\<close>, once \<open>createHistoricalSyncStream\<close> has given the stream \<open>s\<close>.\<close>

definition subscribeWithRetries ::
    "int \<Rightarrow> int \<Rightarrow> int \<Rightarrow> int \<Rightarrow> address list \<Rightarrow> stream \<Rightarrow> hist" where
  "subscribeWithRetries maxR curR fromH cnt addrs s =
     \<lparr>maxRetries = maxR, currentRetries = curR, historicalSyncStream = Some s, stream = s,
      fromBlockHeight = fromH, count = cnt, addresses = addrs,
      lastSyncedBlockHeight = fromH - 1, restartArgs = None\<rparr>"

definition startHistoricalSync ::
    "stream option \<Rightarrow> int \<Rightarrow> int \<Rightarrow> int \<Rightarrow> address list \<Rightarrow> stream \<Rightarrow> exn + hist" where
  "startHistoricalSync running maxR fromH toH addrs s =
     (if running \<noteq> None then Inl (Error ''Historical sync is already in process'')
      else if length addrs = 0 then Inl (Error ''No addresses to sync'')
      else if fromH < 1 then Inl (ErrorWith ''Invalid fromBlockHeight: '' [fromH])
      else let totalAmount = toH - fromH + 1 in
        if totalAmount \<le> 0 then
          Inl (ErrorWith ''Invalid total amount of blocks to sync: '' [totalAmount])
        else Inr (subscribeWithRetries maxR 0 fromH (toH - fromH + 1) addrs s))"

text \<open>\<open>acceptMerkleBlock(height, newAddresses)\<close>; a call without the second argument passes
  \<open>None\<close>, and reading its \<open>length\<close> is a TypeError.\<close>

definition acceptMerkleBlock_historical ::
    "int \<Rightarrow> address list option \<Rightarrow> latch \<Rightarrow> hist \<Rightarrow> hist callback" where
  "acceptMerkleBlock_historical height newAddresses l s =
     (if rejected l then ((l, s), [], Some (Error ''Unable to accept rejected merkle block''))
      else
        let l1 = l\<lparr>accepted := True\<rparr>;
            s1 = s\<lparr>lastSyncedBlockHeight := height\<rparr>;
            blocksRead = lastSyncedBlockHeight s1 - fromBlockHeight s1 + 1;
            remainingCount = count s1 - blocksRead
        in if remainingCount = 0 then ((l1, s1), [], None)
           else if remainingCount < 0 then
             ((l1, s1), [],
              Some (ErrorWith ''Merkle block height is greater than expected range: ''
                      [height, fromBlockHeight s1 + count s1 - 1]))
           else (case newAddresses of
                   None \<Rightarrow>
                     ((l1, s1), [],
                      Some (TypeError ''Cannot read properties of undefined (reading length)''))
                 | Some na \<Rightarrow>
                     if length na \<noteq> 0 then
                       ((l1, s1\<lparr>restartArgs :=
                                  Some (RestartArgs (height + 1) remainingCount (addresses s1 @ na))\<rparr>),
                        [Cancel (stream s1)], None)
                     else ((l1, s1), [], None)))"

definition rejectMerkleBlock_historical :: "exn \<Rightarrow> latch \<Rightarrow> hist \<Rightarrow> hist callback" where
  "rejectMerkleBlock_historical e l s =
     (if accepted l then ((l, s), [], Some (Error ''Unable to reject accepted merkle block''))
      else ((l\<lparr>rejected := True\<rparr>, s), [Destroy (stream s) e], None))"

definition openFrom :: "restart \<Rightarrow> action" where
  "openFrom ra = CreateHistoricalSyncStream (raAddresses ra) (raFromBlockHeight ra) (raCount ra)"

text \<open>
  \<open>errorHandler\<close> up to its return. A call of \<open>subscribeWithRetries\<close> runs as far as its call
  of \<open>createHistoricalSyncStream\<close>; what its promise's \<open>then\<close>, \<open>catch\<close> and \<open>finally\<close> do
  when it settles comes later, in \<open>restartSettled\<close> and \<open>retrySettled\<close>.
\<close>

definition errorHandler_historical :: "exn \<Rightarrow> hist \<Rightarrow> hist \<times> action list" where
  "errorHandler_historical streamError s =
     (if code streamError = Some CANCELLED then
        (let s1 = s\<lparr>historicalSyncStream := None\<rparr> in
         case restartArgs s1 of
           Some ra \<Rightarrow> (s1, [openFrom ra])
         | None \<Rightarrow> (s1, []))
      else if currentRetries s < maxRetries s then
        (case restartArgs s of
           None \<Rightarrow>
             (let blocksRead = lastSyncedBlockHeight s - fromBlockHeight s + 1;
                  remainingCount = count s - blocksRead
              in if remainingCount \<le> 0 then (s, [])
                 else
                   let ra = RestartArgs (lastSyncedBlockHeight s + 1) remainingCount (addresses s)
                   in (s\<lparr>restartArgs := Some ra\<rparr>, [openFrom ra]))
         | Some ra \<Rightarrow> (s, [openFrom ra]))
      else (s, [EmitError streamError]))"

text \<open>The promise of the reopening after a cancellation settles: with the new stream, or
  with the error that \<open>catch\<close> emits; \<open>finally\<close> clears \<open>restartArgs\<close>.\<close>

definition restartSettled :: "exn + stream \<Rightarrow> hist \<Rightarrow> hist \<times> action list" where
  "restartSettled r s =
     (case r of
        Inr newStream \<Rightarrow> (s\<lparr>historicalSyncStream := Some newStream, restartArgs := None\<rparr>, [])
      | Inl e \<Rightarrow> (s\<lparr>restartArgs := None\<rparr>, [EmitError e]))"

text \<open>The promise of a retry settles; a retry that opened its stream is counted.\<close>

definition retrySettled :: "exn + stream \<Rightarrow> hist \<Rightarrow> hist \<times> action list" where
  "retrySettled r s =
     (case r of
        Inr newStream \<Rightarrow>
          (s\<lparr>historicalSyncStream := Some newStream,
             currentRetries := currentRetries s + 1, restartArgs := None\<rparr>, [])
      | Inl e \<Rightarrow> (s\<lparr>restartArgs := None\<rparr>, [EmitError e]))"

definition endHandler_historical :: "hist \<Rightarrow> action list" where
  "endHandler_historical s = (if restartArgs s = None then [EmitHistoricalDataObtained] else [])"

definition stopReadingHistorical :: "hist \<Rightarrow> action list" where
  "stopReadingHistorical s =
     (case historicalSyncStream s of Some st \<Rightarrow> [Cancel st] | None \<Rightarrow> [])"

subsection \<open>Continuous sync\<close>

text \<open>
  The variables one call of \<open>startContinuousSync\<close> closes over, and the Reader's
  \<open>continuousSyncStream\<close>. Here \<open>restartArgs\<close> holds a height and the addresses only.
\<close>

record cont =
  continuousSyncStream :: "stream option"
  cStream :: stream
  cFromBlockHeight :: int
  cAddresses :: "address list"
  cRestartArgs :: "(int \<times> address list) option"
  addressesGenerated :: "address list"
  cLastSyncedBlockHeight :: int

text \<open>The checks of \<open>startContinuousSync\<close> before it opens a stream (the addresses are a
  list, so \<open>Array.isArray\<close> holds).\<close>

definition startContinuousSync_check :: "stream option \<Rightarrow> int \<Rightarrow> address list \<Rightarrow> exn option" where
  "startContinuousSync_check running fromH addrs =
     (if running \<noteq> None then Some (Error ''Continuous sync has already been started'')
      else if length addrs = 0 then Some (Error ''Empty addresses list provided'')
      else if fromH < 1 then Some (ErrorWith ''Invalid fromBlockHeight: '' [fromH])
      else None)"

definition startContinuousSync_tx ::
    "stream option \<Rightarrow> int \<Rightarrow> address list \<Rightarrow> stream \<Rightarrow> exn + cont" where
  "startContinuousSync_tx running fromH addrs s =
     (case startContinuousSync_check running fromH addrs of
        Some e \<Rightarrow> Inl e
      | None \<Rightarrow>
          Inr \<lparr>continuousSyncStream = Some s, cStream = s, cFromBlockHeight = fromH,
               cAddresses = addrs, cRestartArgs = None, addressesGenerated = [],
               cLastSyncedBlockHeight = fromH\<rparr>)"

definition appendAddresses :: "address list \<Rightarrow> cont \<Rightarrow> cont" where
  "appendAddresses newAddresses c =
     c\<lparr>addressesGenerated := addressesGenerated c @ newAddresses\<rparr>"

definition acceptMerkleBlock_continuous :: "int \<Rightarrow> latch \<Rightarrow> cont \<Rightarrow> cont callback" where
  "acceptMerkleBlock_continuous height l c =
     (if rejected l then ((l, c), [], Some (Error ''Unable to accept rejected merkle block''))
      else if height < cFromBlockHeight c then
        ((l, c),
         [Destroy (cStream c)
            (ErrorWith ''Merkle block height is lesser than expected startBlockHeight: ''
               [height, cFromBlockHeight c])],
         None)
      else
        let l1 = l\<lparr>accepted := True\<rparr>;
            c1 = c\<lparr>cLastSyncedBlockHeight := height\<rparr>
        in if length (addressesGenerated c1) \<noteq> 0 then
             ((l1, c1\<lparr>cRestartArgs := Some (height + 1, cAddresses c1 @ addressesGenerated c1),
                      addressesGenerated := []\<rparr>),
              [Cancel (cStream c1)], None)
           else ((l1, c1), [], None))"

definition rejectMerkleBlock_continuous :: "exn \<Rightarrow> latch \<Rightarrow> cont \<Rightarrow> cont callback" where
  "rejectMerkleBlock_continuous e l c =
     (if accepted l then ((l, c), [], Some (Error ''Unable to reject accepted merkle block''))
      else ((l\<lparr>rejected := True\<rparr>, c), [Destroy (cStream c) e], None))"

text \<open>
  \<open>errorHandler\<close> up to its return. The call of \<open>this.startContinuousSync\<close> runs its checks
  and, when they pass, calls \<open>createContinuousSyncStream\<close> with \<open>count: 0\<close>; when one fails
  the promise is rejected and nothing is opened.
\<close>

definition errorHandler_continuous :: "exn \<Rightarrow> cont \<Rightarrow> cont \<times> action list" where
  "errorHandler_continuous streamError c =
     (if code streamError = Some CANCELLED then
        (let c1 = c\<lparr>continuousSyncStream := None\<rparr> in
         case cRestartArgs c1 of
           Some (fromH, addrs) \<Rightarrow>
             (c1, case startContinuousSync_check (continuousSyncStream c1) fromH addrs of
                    None \<Rightarrow> [CreateContinuousSyncStream addrs fromH 0]
                  | Some e \<Rightarrow> [])
         | None \<Rightarrow> (c1, []))
      else (c, [EmitError streamError]))"

definition continuousRestartSettled :: "exn + stream \<Rightarrow> cont \<Rightarrow> cont \<times> action list" where
  "continuousRestartSettled r c =
     (case r of
        Inr newStream \<Rightarrow> (c\<lparr>continuousSyncStream := Some newStream, cRestartArgs := None\<rparr>, [])
      | Inl e \<Rightarrow> (c\<lparr>cRestartArgs := None\<rparr>, [EmitError e]))"

definition beforeReconnectHandler :: "cont \<Rightarrow> cont \<times> action list" where
  "beforeReconnectHandler c =
     (if cRestartArgs c \<noteq> None then (c, [])
      else
        let newFromBlockHeight =
              (if cFromBlockHeight c = cLastSyncedBlockHeight c then cFromBlockHeight c
               else cLastSyncedBlockHeight c + 1);
            newAddresses =
              (if length (addressesGenerated c) \<noteq> 0 then cAddresses c @ addressesGenerated c
               else cAddresses c)
        in (c\<lparr>addressesGenerated := []\<rparr>, [UpdateArguments newAddresses newFromBlockHeight 0]))"

definition endHandler_continuous :: "cont \<Rightarrow> cont" where
  "endHandler_continuous c = c\<lparr>continuousSyncStream := None\<rparr>"

subsection \<open>Sessions\<close>

text \<open>
  What reaches the handlers registered on one stream, one after the other: a merkle block in
  a \<open>data\<close> frame, whose consumer calls \<open>acceptMerkleBlock\<close> or \<open>rejectMerkleBlock\<close> on the
  block's fresh flags (an exception of the callback goes to the consumer); transactions
  whose consumer calls \<open>appendAddresses\<close>; \<open>error\<close>, \<open>end\<close> and \<open>beforeReconnect\<close>; and the
  settling of a promise the error handler left pending. A session collects what the Reader
  does, in order.
\<close>

datatype histEvent =
    Accept int "address list option"
  | RejectBlock exn
  | StreamError exn
  | StreamEnd
  | RestartSettles "exn + stream"
  | RetrySettles "exn + stream"

fun histStep :: "histEvent \<Rightarrow> hist \<Rightarrow> hist \<times> action list" where
  "histStep (Accept height newAddresses) s =
     (case acceptMerkleBlock_historical height newAddresses newLatch s of
        ((l, s1), acts, x) \<Rightarrow> (s1, acts))"
| "histStep (RejectBlock e) s =
     (case rejectMerkleBlock_historical e newLatch s of
        ((l, s1), acts, x) \<Rightarrow> (s1, acts))"
| "histStep (StreamError e) s = errorHandler_historical e s"
| "histStep StreamEnd s = (s, endHandler_historical s)"
| "histStep (RestartSettles r) s = restartSettled r s"
| "histStep (RetrySettles r) s = retrySettled r s"

fun histRun :: "histEvent list \<Rightarrow> hist \<Rightarrow> hist \<times> action list" where
  "histRun [] s = (s, [])"
| "histRun (ev # evs) s =
     (case histStep ev s of
        (s1, acts) \<Rightarrow> (case histRun evs s1 of (s2, rest) \<Rightarrow> (s2, acts @ rest)))"

datatype contEvent =
    CAppend "address list"
  | CAccept int
  | CRejectBlock exn
  | CStreamError exn
  | CStreamEnd
  | CBeforeReconnect
  | CRestartSettles "exn + stream"

fun contStep :: "contEvent \<Rightarrow> cont \<Rightarrow> cont \<times> action list" where
  "contStep (CAppend newAddresses) c = (appendAddresses newAddresses c, [])"
| "contStep (CAccept height) c =
     (case acceptMerkleBlock_continuous height newLatch c of
        ((l, c1), acts, x) \<Rightarrow> (c1, acts))"
| "contStep (CRejectBlock e) c =
     (case rejectMerkleBlock_continuous e newLatch c of
        ((l, c1), acts, x) \<Rightarrow> (c1, acts))"
| "contStep (CStreamError e) c = errorHandler_continuous e c"
| "contStep CStreamEnd c = (endHandler_continuous c, [])"
| "contStep CBeforeReconnect c = beforeReconnectHandler c"
| "contStep (CRestartSettles r) c = continuousRestartSettled r c"

fun contRun :: "contEvent list \<Rightarrow> cont \<Rightarrow> cont \<times> action list" where
  "contRun [] c = (c, [])"
| "contRun (ev # evs) c =
     (case contStep ev c of
        (c1, acts) \<Rightarrow> (case contRun evs c1 of (c2, rest) \<Rightarrow> (c2, acts @ rest)))"

text \<open>A consumer that calls a second callback of a merkle block after a first one: the
  second call finds the flags and the variables as the first left them.\<close>

definition thenCall :: "'s callback \<Rightarrow> (latch \<Rightarrow> 's \<Rightarrow> 's callback) \<Rightarrow> 's callback" where
  "thenCall first second = (case first of ((l, s), acts, x) \<Rightarrow> second l s)"

section \<open>Properties of the Provider\<close>

lemma trace_init [simp]: "trace (init p) = trace p"
  by (simp add: init_def Let_def)

lemma spvChain_init [simp]: "spvChain (init p) = spvChain p"
  by (simp add: init_def Let_def)

lemma state_hdo: "state (fst (handleHistoricalDataObtained ops p)) = IDLE"
  by (simp add: handleHistoricalDataObtained_def split: prod.splits)

lemma coreMethods_removeReaderListeners:
  "coreMethods (fst (removeReaderListeners p)) = coreMethods p"
  by (simp add: removeReaderListeners_def split: option.splits)

lemma coreMethods_handleError: "coreMethods (fst (handleError e p)) = coreMethods p"
  by (simp add: handleError_def destroyReader_def removeReaderListeners_def emit_def perform_def
      split: option.splits)

lemma coreMethods_hdoTry: "coreMethods (fst (hdoTry ops p)) = coreMethods p"
  by (simp add: hdoTry_def coreMethods_removeReaderListeners emit_def perform_def
      split: prod.splits option.splits)

lemma coreMethods_hdo: "coreMethods (fst (handleHistoricalDataObtained ops p)) = coreMethods p"
proof (cases "hdoTry ops p")
  case (Pair q x)
  then have q: "coreMethods q = coreMethods p" using coreMethods_hdoTry[of ops p] by simp
  show ?thesis
  proof (cases x)
    case None
    with Pair q show ?thesis by (simp add: handleHistoricalDataObtained_def)
  next
    case (Some e)
    with Pair q coreMethods_handleError[of e q] show ?thesis
      by (cases "handleError e q") (simp add: handleHistoricalDataObtained_def)
  qed
qed

text \<open>
  Claim C1. When \<open>chain.addHeaders(headers, headHeight)\<close> returns the list \<open>headersAdded\<close>
  without throwing, handling the batch emits exactly one \<open>CHAIN_UPDATED\<close> event, carrying
  \<open>headersAdded\<close> and the height \<open>headHeight + (headers.length - headersAdded.length)\<close>, if
  \<open>headersAdded\<close> is not empty, and emits nothing if it is empty. The only other thing the
  Provider does is the call of \<open>addHeaders\<close> itself, and the handler does not throw.
\<close>

theorem handleHeaders_chain_updated:
  assumes "addHeaders ops headers headHeight (spvChain p) = (c, Inr headersAdded)"
  shows "(headersAdded \<noteq> [] \<longrightarrow>
           trace (fst (handleHeaders ops headers headHeight p)) =
             trace p @ [ChainAddHeaders headers headHeight,
                        Emit (CHAIN_UPDATED headersAdded
                               (headHeight + (int (length headers) - int (length headersAdded))))])
       \<and> (headersAdded = [] \<longrightarrow>
           trace (fst (handleHeaders ops headers headHeight p)) =
             trace p @ [ChainAddHeaders headers headHeight])
       \<and> snd (handleHeaders ops headers headHeight p) = None"
  using assms by (simp add: handleHeaders_def perform_def emit_def Let_def)

theorem handleHeaders_chain_updated_witness:
  "trace (fst (handleHeaders stubChain [''h1'', ''h2''] 1 stubProvider)) =
     [ChainAddHeaders [''h1'', ''h2''] 1, Emit (CHAIN_UPDATED [''h1'', ''h2''] 1)]
   \<and> trace (fst (handleHeaders (stubChain\<lparr>addHeaders := (\<lambda>hs h c. (c, Inr (tl hs)))\<rparr>)
                  [''h1'', ''h2''] 1 stubProvider)) =
     [ChainAddHeaders [''h1'', ''h2''] 1, Emit (CHAIN_UPDATED [''h2''] 2)]
   \<and> trace (fst (handleHeaders (stubChain\<lparr>addHeaders := (\<lambda>hs h c. (c, Inr []))\<rparr>)
                  [''h1'', ''h2''] 1 stubProvider)) =
     [ChainAddHeaders [''h1'', ''h2''] 1]"
  using handleHeaders_chain_updated[of stubChain "[''h1'', ''h2'']" 1 stubProvider
          "spvChain stubProvider" "[''h1'', ''h2'']"]
    handleHeaders_chain_updated[of "stubChain\<lparr>addHeaders := (\<lambda>hs h c. (c, Inr (tl hs)))\<rparr>"
          "[''h1'', ''h2'']" 1 stubProvider "spvChain stubProvider" "[''h2'']"]
    handleHeaders_chain_updated[of "stubChain\<lparr>addHeaders := (\<lambda>hs h c. (c, Inr []))\<rparr>"
          "[''h1'', ''h2'']" 1 stubProvider "spvChain stubProvider" "[]"]
  by (simp add: stubChain_def stubProvider_def)

text \<open>
  What \<open>handleHeaders\<close> does when \<open>chain.addHeaders\<close> throws, by the kind of the error
  and by whether the Provider still holds its Reader.
\<close>

lemma handleHeaders_throws_reader_held:
  assumes "addHeaders ops headers headHeight (spvChain p) = (c, Inl e)"
  shows "(instanceofSPVError e \<longrightarrow>
           handleHeaders ops headers headHeight p =
             (p\<lparr>spvChain := c,
                trace := trace p @ [ChainAddHeaders headers headHeight, Reject e]\<rparr>, None))
       \<and> (\<not> instanceofSPVError e \<and> blockHeadersReader p \<noteq> None \<longrightarrow>
           handleHeaders ops headers headHeight p =
             (p\<lparr>spvChain := c, blockHeadersReader := None,
                trace := trace p @ [ChainAddHeaders headers headHeight, Emit (ERROR e)]\<rparr>, None))"
  using assms
  by (auto simp add: handleHeaders_def perform_def emit_def Let_def handleError_def
      destroyReader_def removeReaderListeners_def)

lemma handleHeaders_throws_reader_null:
  assumes "addHeaders ops headers headHeight (spvChain p) = (c, Inl e)"
    and "\<not> instanceofSPVError e" and "blockHeadersReader p = None"
  shows "handleHeaders ops headers headHeight p =
           (p\<lparr>spvChain := c, trace := trace p @ [ChainAddHeaders headers headHeight]\<rparr>,
            Some (TypeError ''Cannot read properties of null (reading removeListener)''))"
  using assms
  by (simp add: handleHeaders_def perform_def Let_def handleError_def
      destroyReader_def removeReaderListeners_def)

text \<open>
  Claim C2. When \<open>chain.addHeaders\<close> throws while a batch is handled: for an \<open>SPVError\<close> the
  batch's \<open>reject\<close> callback is called with that error and nothing is emitted; for any
  other error \<open>reject\<close> is not called, the Reader is dropped and a single \<open>error\<close> event
  carrying that error is emitted. The code does not keep the second half once
  \<open>handleHeaders\<close> is registered twice, which a refused \<open>readHistorical\<close> followed by another
  brings about: one batch then runs the handler twice, the first run drops the Reader and
  emits \<open>error\<close>, and the second run calls \<open>addHeaders\<close> again, finds the Reader \<open>null\<close> in
  \<open>removeReaderListeners\<close> and ends with a TypeError, emitting nothing.
\<close>

theorem handleHeaders_registered_twice:
  "listenersOf BLOCK_HEADERS
     (readTwice (stubChain\<lparr>addHeaders := (\<lambda>hs h c. (c, Inl (Error ''test'')))\<rparr>) stubProvider)
     = [HandleHeaders, HandleHeaders]
   \<and> readerEmits (stubChain\<lparr>addHeaders := (\<lambda>hs h c. (c, Inl (Error ''test'')))\<rparr>)
       (BlockHeaders [''h1''] 1)
       (readTwice (stubChain\<lparr>addHeaders := (\<lambda>hs h c. (c, Inl (Error ''test'')))\<rparr>) stubProvider)
     = ((readTwice (stubChain\<lparr>addHeaders := (\<lambda>hs h c. (c, Inl (Error ''test'')))\<rparr>) stubProvider)
          \<lparr>blockHeadersReader := None,
           trace := [ChainReset 2, ReaderReadHistorical 2 1, ChainReset 1,
                     ReaderReadHistorical 1 10,
                     ChainAddHeaders [''h1''] 1, Emit (ERROR (Error ''test'')),
                     ChainAddHeaders [''h1''] 1]\<rparr>,
        Some (TypeError ''Cannot read properties of null (reading removeListener)''))"
  by (simp add: readTwice_def readHistorical_def init_def ensureChainRoot_def perform_def
      on_def stubChain_def stubProvider_def Let_def listenersOf_def readerEmits_def
      handleHeaders_def handleError_def destroyReader_def removeReaderListeners_def
      removeListener_def emit_def)

text \<open>
  Claim C9. A call of \<open>readHistorical\<close> or \<open>startContinuousSync\<close> that gets past its checks
  (core methods set, state \<open>IDLE\<close>) runs \<open>ensureChainRoot(fromHeight)\<close> before it asks the
  Reader to open anything: when the chain has no hash at \<open>fromHeight - 1\<close>,
  \<open>chain.reset(fromHeight)\<close> is called, and it is called before the Reader; when a hash (a
  non-empty string) is recorded there, \<open>reset\<close> is not called and the chain is as it was.
\<close>

theorem ensureChainRoot_before_opening:
  assumes "coreMethods p" and "state p = IDLE"
  shows "(hashesByHeight ops (spvChain p) (h - 1) = None \<longrightarrow>
           trace (fst (readHistorical ops (Some h) t opened p)) =
             trace p @ [ChainReset h, ReaderReadHistorical h t]
         \<and> spvChain (fst (readHistorical ops (Some h) t opened p)) = reset ops h (spvChain p)
         \<and> trace (fst (startContinuousSync ops h opened p)) =
             trace p @ [ChainReset h, ReaderSubscribeToNew h]
         \<and> spvChain (fst (startContinuousSync ops h opened p)) = reset ops h (spvChain p))
       \<and> (hashesByHeight ops (spvChain p) (h - 1) = Some x \<and> x \<noteq> [] \<longrightarrow>
           trace (fst (readHistorical ops (Some h) t opened p)) =
             trace p @ [ReaderReadHistorical h t]
         \<and> spvChain (fst (readHistorical ops (Some h) t opened p)) = spvChain p
         \<and> trace (fst (startContinuousSync ops h opened p)) =
             trace p @ [ReaderSubscribeToNew h]
         \<and> spvChain (fst (startContinuousSync ops h opened p)) = spvChain p)"
  using assms
  by (cases opened)
    (simp_all add: readHistorical_def startContinuousSync_def ensureChainRoot_def perform_def
      Let_def)

theorem ensureChainRoot_before_opening_witness:
  "trace (fst (readHistorical stubChain (Some 5) 10 None stubProvider)) =
     [ChainReset 5, ReaderReadHistorical 5 10]
   \<and> trace (fst (startContinuousSync stubChain 5 None stubProvider)) =
     [ChainReset 5, ReaderSubscribeToNew 5]
   \<and> trace (fst (readHistorical stubChain (Some 1) 10 None stubProvider)) =
     [ReaderReadHistorical 1 10]
   \<and> spvChain (fst (readHistorical stubChain (Some 1) 10 None stubProvider)) =
     spvChain stubProvider
   \<and> trace (fst (startContinuousSync stubChain 1 None stubProvider)) =
     [ReaderSubscribeToNew 1]"
  using ensureChainRoot_before_opening[where p = stubProvider and ops = stubChain and h = 5
      and t = 10 and opened = None]
    ensureChainRoot_before_opening[where p = stubProvider and ops = stubChain and h = 1
      and t = 10 and opened = None and x = "''0x000000001''"]
  by (simp add: stubChain_def stubProvider_def)

text \<open>
  What \<open>handleHistoricalDataObtained\<close> does when \<open>chain.validate()\<close> throws, and that a
  following \<open>readHistorical\<close> gets past the check of the state.
\<close>

lemma handleHistoricalDataObtained_validate_fails:
  assumes "validate ops (spvChain p) = (c, Some e)"
  shows "(blockHeadersReader p \<noteq> None \<longrightarrow>
           handleHistoricalDataObtained ops p =
             (p\<lparr>spvChain := c, state := IDLE, blockHeadersReader := None,
                trace := trace p @ [ChainValidate, Emit (ERROR e)]\<rparr>, None))
       \<and> (blockHeadersReader p = None \<longrightarrow>
           handleHistoricalDataObtained ops p =
             (p\<lparr>spvChain := c, state := IDLE, trace := trace p @ [ChainValidate]\<rparr>,
              Some (TypeError ''Cannot read properties of null (reading removeListener)'')))"
  using assms
  by (auto simp add: handleHistoricalDataObtained_def hdoTry_def handleError_def
      destroyReader_def removeReaderListeners_def emit_def perform_def)

lemma readHistorical_after_historicalDataObtained:
  assumes "coreMethods p"
  shows "snd (readHistorical ops fromArg t opened (fst (handleHistoricalDataObtained ops p)))
          = opened"
  using assms state_hdo[of ops p] coreMethods_hdo[of ops p]
  by (cases opened) (simp_all add: readHistorical_def Let_def)

text \<open>
  Claim C10. After the handler of the Reader's \<open>historicalDataObtained\<close> the Provider's state
  is \<open>IDLE\<close>, also when \<open>chain.validate()\<close> throws: the Provider then emits \<open>error\<close>, after
  dropping the Reader, instead of \<open>HISTORICAL_DATA_OBTAINED\<close>, and a following
  \<open>readHistorical\<close> is not refused as busy. The state is \<open>IDLE\<close> on every path, but the
  code does not keep the emission once the handler is registered twice, which a refused
  \<open>readHistorical\<close> followed by another brings about: the event then runs the handler twice,
  the first run drops the Reader and emits \<open>error\<close>, and the second run calls \<open>validate\<close>
  again, finds the Reader \<open>null\<close> in \<open>removeReaderListeners\<close> and ends with a TypeError,
  emitting nothing.
\<close>

theorem handleHistoricalDataObtained_registered_twice:
  "listenersOf READER_HISTORICAL_DATA_OBTAINED
     (readTwice (stubChain\<lparr>validate := (\<lambda>c. (c, Some (Error ''invalid'')))\<rparr>) stubProvider)
     = [HandleHistoricalDataObtained, HandleHistoricalDataObtained]
   \<and> readerEmits (stubChain\<lparr>validate := (\<lambda>c. (c, Some (Error ''invalid'')))\<rparr>)
       HistoricalDataObtained
       (readTwice (stubChain\<lparr>validate := (\<lambda>c. (c, Some (Error ''invalid'')))\<rparr>) stubProvider)
     = ((readTwice (stubChain\<lparr>validate := (\<lambda>c. (c, Some (Error ''invalid'')))\<rparr>) stubProvider)
          \<lparr>state := IDLE, blockHeadersReader := None,
           trace := [ChainReset 2, ReaderReadHistorical 2 1, ChainReset 1,
                     ReaderReadHistorical 1 10,
                     ChainValidate, Emit (ERROR (Error ''invalid'')), ChainValidate]\<rparr>,
        Some (TypeError ''Cannot read properties of null (reading removeListener)''))"
  by (simp add: readTwice_def readHistorical_def init_def ensureChainRoot_def perform_def
      on_def stubChain_def stubProvider_def Let_def listenersOf_def readerEmits_def
      handleHistoricalDataObtained_def hdoTry_def handleError_def destroyReader_def
      removeReaderListeners_def removeListener_def emit_def)

section \<open>Properties of the partition\<close>

lemma sum_list_const_upt: "sum_list (map (\<lambda>i. (c::int)) [0..<k]) = int k * c"
  by (induction k) (simp_all add: algebra_simps)

lemma round_div_ge_1:
  assumes "1 \<le> b" "b \<le> a"
  shows "1 \<le> round_div a b"
proof -
  have "2 * b \<le> 2 * a + b" using assms by simp
  moreover have "0 < 2 * b" using assms by simp
  ultimately have "(2 * b) div (2 * b) \<le> (2 * a + b) div (2 * b)"
    by (intro zdiv_mono1) simp_all
  then show ?thesis using \<open>0 < 2 * b\<close> by (simp add: round_div_def)
qed

text \<open>
  Claim C4. For a read of \<open>totalAmount = toHeight - fromHeight + 1 \<ge> 1\<close> heights from
  \<open>fromHeight \<ge> 1\<close>, with a target batch size and a stream limit of at least 1: if
  \<open>totalAmount \<le> targetBatchSize \<times> 1.4\<close> exactly one sub-stream, of size \<open>totalAmount\<close>, is
  opened; otherwise \<open>numStreams = min(round(totalAmount / targetBatchSize), maxParallelStreams)\<close>
  sub-streams are opened, the first \<open>numStreams - 1\<close> of size
  \<open>per = ceil(totalAmount / numStreams)\<close>, sub-stream \<open>i\<close> starting at \<open>fromHeight + i \<times> per\<close>,
  and the last of size \<open>totalAmount - per \<times> (numStreams - 1)\<close>; the sizes sum to \<open>totalAmount\<close>.
\<close>

theorem readHistorical_partition_layout:
  assumes "1 \<le> targetBatchSize" and "1 \<le> maxParallelStreams" and "1 \<le> fromHeight"
    and "totalAmount = toHeight - fromHeight + 1" and "1 \<le> totalAmount"
    and "numStreams = min (round_div totalAmount targetBatchSize) maxParallelStreams"
    and "per = ceil_div totalAmount numStreams"
  shows "(5 * totalAmount \<le> 7 * targetBatchSize \<longrightarrow>
            readHistorical_partition targetBatchSize maxParallelStreams fromHeight toHeight
              = Inr [(fromHeight, totalAmount)])
       \<and> (\<not> 5 * totalAmount \<le> 7 * targetBatchSize \<longrightarrow>
            (\<exists>subs. readHistorical_partition targetBatchSize maxParallelStreams fromHeight toHeight
                      = Inr subs
               \<and> int (length subs) = numStreams
               \<and> (\<forall>i < nat (numStreams - 1). subs ! i = (fromHeight + int i * per, per))
               \<and> last subs = (fromHeight + (numStreams - 1) * per, totalAmount - per * (numStreams - 1))
               \<and> sum_list (map snd subs) = totalAmount))"
proof (intro conjI impI)
  assume "5 * totalAmount \<le> 7 * targetBatchSize"
  then show "readHistorical_partition targetBatchSize maxParallelStreams fromHeight toHeight
              = Inr [(fromHeight, totalAmount)]"
    using assms by (simp add: readHistorical_partition_def Let_def)
next
  assume big: "\<not> 5 * totalAmount \<le> 7 * targetBatchSize"
  then have "targetBatchSize \<le> totalAmount" using assms(1) by simp
  then have "1 \<le> round_div totalAmount targetBatchSize"
    using assms(1) by (rule round_div_ge_1[rotated])
  then have n1: "1 \<le> numStreams" using assms(2,6) by simp
  let ?subs = "map (\<lambda>i. (fromHeight + int i * per, per)) [0..<nat (numStreams - 1)]
                @ [(fromHeight + (numStreams - 1) * per, totalAmount - per * (numStreams - 1))]"
  have eq: "readHistorical_partition targetBatchSize maxParallelStreams fromHeight toHeight
              = Inr ?subs"
    using assms big by (simp add: readHistorical_partition_def Let_def)
  have len: "int (length ?subs) = numStreams" using n1 by simp
  have nth: "\<forall>i < nat (numStreams - 1). ?subs ! i = (fromHeight + int i * per, per)"
    by (simp add: nth_append)
  have lst: "last ?subs = (fromHeight + (numStreams - 1) * per, totalAmount - per * (numStreams - 1))"
    by simp
  have "sum_list (map snd ?subs) = int (nat (numStreams - 1)) * per + (totalAmount - per * (numStreams - 1))"
    by (simp add: comp_def sum_list_const_upt)
  then have sm: "sum_list (map snd ?subs) = totalAmount" using n1 by (simp add: algebra_simps)
  show "\<exists>subs. readHistorical_partition targetBatchSize maxParallelStreams fromHeight toHeight
                      = Inr subs
               \<and> int (length subs) = numStreams
               \<and> (\<forall>i < nat (numStreams - 1). subs ! i = (fromHeight + int i * per, per))
               \<and> last subs = (fromHeight + (numStreams - 1) * per, totalAmount - per * (numStreams - 1))
               \<and> sum_list (map snd subs) = totalAmount"
    using eq len nth lst sm by blast
qed

theorem readHistorical_partition_layout_witness:
  "readHistorical_partition 10 6 1 13 = Inr [(1, 13)]
   \<and> (\<exists>subs. readHistorical_partition 10 6 1 34 = Inr subs \<and> int (length subs) = 3
          \<and> (\<forall>i < 2. subs ! i = (1 + int i * 12, 12))
          \<and> last subs = (25, 10)
          \<and> sum_list (map snd subs) = 34)"
  using readHistorical_partition_layout[of 10 6 1 13 13 1 13]
    readHistorical_partition_layout[of 10 6 1 34 34 3 12]
  by (simp add: round_div_def ceil_div_def)

section \<open>Properties of the TransactionsReader\<close>

text \<open>
  Claim C3, as the code has it. A historical sub-stream started with \<open>(fromBlockHeight, count)\<close>
  that has synced up to \<open>L = lastSyncedBlockHeight\<close> receives a stream error that is not
  \<open>CANCELLED\<close>, while retries remain and \<open>restartArgs\<close> is \<open>null\<close> (no reopening is
  pending, neither for a larger filter nor from an earlier retry that has not settled). If
  \<open>count - (L + 1 - fromBlockHeight)\<close> is positive, the replacement stream is opened from
  \<open>L + 1\<close> with that count and the same addresses; for \<open>L \<ge> fromBlockHeight - 1\<close> the
  heights it asks for are those of the original range without \<open>fromBlockHeight .. L\<close>. If
  it is not positive, no replacement stream is opened at all.
\<close>

theorem errorHandler_historical_resumes:
  assumes "code e \<noteq> Some CANCELLED" and "currentRetries s < maxRetries s"
    and "restartArgs s = None"
  shows "(0 < count s - (lastSyncedBlockHeight s + 1 - fromBlockHeight s) \<longrightarrow>
            snd (errorHandler_historical e s) =
              [CreateHistoricalSyncStream (addresses s) (lastSyncedBlockHeight s + 1)
                 (count s - (lastSyncedBlockHeight s + 1 - fromBlockHeight s))]
          \<and> (fromBlockHeight s - 1 \<le> lastSyncedBlockHeight s \<longrightarrow>
               {lastSyncedBlockHeight s + 1 ..<
                  lastSyncedBlockHeight s + 1
                    + (count s - (lastSyncedBlockHeight s + 1 - fromBlockHeight s))}
               = {fromBlockHeight s ..< fromBlockHeight s + count s}
                   - {fromBlockHeight s .. lastSyncedBlockHeight s}))
       \<and> (count s - (lastSyncedBlockHeight s + 1 - fromBlockHeight s) \<le> 0 \<longrightarrow>
            snd (errorHandler_historical e s) = [])"
  using assms
  by (auto simp add: errorHandler_historical_def openFrom_def Let_def)

theorem errorHandler_historical_resumes_witness:
  "snd (errorHandler_historical (Error ''Fake stream error'')
          ((subscribeWithRetries 1 0 1 12 [''a''] 0)\<lparr>lastSyncedBlockHeight := 4\<rparr>))
     = [CreateHistoricalSyncStream [''a''] 5 8]
   \<and> {5 ..< 13} = {1 ..< (13::int)} - {1 .. 4}
   \<and> snd (errorHandler_historical (Error ''Fake stream error'')
          ((subscribeWithRetries 1 0 1 4 [''a''] 0)\<lparr>lastSyncedBlockHeight := 4\<rparr>)) = []"
  using errorHandler_historical_resumes[of "Error ''Fake stream error''"
      "(subscribeWithRetries 1 0 1 12 [''a''] 0)\<lparr>lastSyncedBlockHeight := 4\<rparr>"]
    errorHandler_historical_resumes[of "Error ''Fake stream error''"
      "(subscribeWithRetries 1 0 1 4 [''a''] 0)\<lparr>lastSyncedBlockHeight := 4\<rparr>"]
  by (simp add: subscribeWithRetries_def CANCELLED_def)

text \<open>
  The claim as it is stated fails in two ways. A sub-stream of heights 1 to 4 that has synced all
  four (\<open>L = 4\<close>) opens nothing on an error with a retry left, where the claim has a stream
  opened from 5 with count 0. And a sub-stream of heights 1 to 10 whose block 3 was accepted
  with a new address and whose block 5 was accepted after it reopens, on such an error, from
  the pending restart arguments, height 4 and count 7, not from 6 with count 5.
\<close>

theorem errorHandler_historical_counterexample:
  "fst (histRun [Accept 4 (Some [])] (subscribeWithRetries 1 0 1 4 [''a''] 0))
     = (subscribeWithRetries 1 0 1 4 [''a''] 0)\<lparr>lastSyncedBlockHeight := 4\<rparr>
   \<and> currentRetries ((subscribeWithRetries 1 0 1 4 [''a''] 0)\<lparr>lastSyncedBlockHeight := 4\<rparr>)
       < maxRetries ((subscribeWithRetries 1 0 1 4 [''a''] 0)\<lparr>lastSyncedBlockHeight := 4\<rparr>)
   \<and> code (Error ''Fake stream error'') \<noteq> Some CANCELLED
   \<and> snd (errorHandler_historical (Error ''Fake stream error'')
            ((subscribeWithRetries 1 0 1 4 [''a''] 0)\<lparr>lastSyncedBlockHeight := 4\<rparr>)) = []
   \<and> lastSyncedBlockHeight
        (fst (histRun [Accept 3 (Some [''b'']), Accept 5 (Some [])]
               (subscribeWithRetries 1 0 1 10 [''a''] 0))) = 5
   \<and> snd (histRun [Accept 3 (Some [''b'']), Accept 5 (Some []),
                    StreamError (Error ''Fake stream error'')]
             (subscribeWithRetries 1 0 1 10 [''a''] 0))
       = [Cancel 0, CreateHistoricalSyncStream [''a'', ''b''] 4 7]"
  by (simp add: subscribeWithRetries_def acceptMerkleBlock_historical_def newLatch_def
      errorHandler_historical_def openFrom_def CANCELLED_def Let_def)

text \<open>The arguments \<open>beforeReconnectHandler\<close> passes to the updater when no restart is
  pending.\<close>

lemma beforeReconnectHandler_arguments:
  assumes "cRestartArgs c = None"
  shows "snd (beforeReconnectHandler c) =
           [UpdateArguments
              (if addressesGenerated c \<noteq> [] then cAddresses c @ addressesGenerated c
               else cAddresses c)
              (if cFromBlockHeight c = cLastSyncedBlockHeight c then cFromBlockHeight c
               else cLastSyncedBlockHeight c + 1)
              0]"
  using assms by (simp add: beforeReconnectHandler_def Let_def)

text \<open>
  Claim C5. On \<open>beforeReconnect\<close> with no restart pending, the Reader calls the updater with
  \<open>fromBlockHeight\<close> if \<open>lastSyncedBlockHeight\<close> equals it and \<open>lastSyncedBlockHeight + 1\<close>
  otherwise, and with count 0, so that no height already delivered is delivered again. The
  code does not keep the consequence at the first height: \<open>lastSyncedBlockHeight\<close> starts at
  \<open>fromBlockHeight\<close>, so on a stream subscribed at 100 whose block at height 100 has been
  delivered and accepted the two are still equal, and the reconnection asks for height 100
  again.
\<close>

theorem beforeReconnectHandler_first_height:
  "startContinuousSync_tx None 100 [''a''] 0 =
     Inr \<lparr>continuousSyncStream = Some 0, cStream = 0, cFromBlockHeight = 100,
          cAddresses = [''a''], cRestartArgs = None, addressesGenerated = [],
          cLastSyncedBlockHeight = 100\<rparr>
   \<and> acceptMerkleBlock_continuous 100 newLatch
        \<lparr>continuousSyncStream = Some 0, cStream = 0, cFromBlockHeight = 100,
         cAddresses = [''a''], cRestartArgs = None, addressesGenerated = [],
         cLastSyncedBlockHeight = 100\<rparr> =
       ((\<lparr>rejected = False, accepted = True\<rparr>,
         \<lparr>continuousSyncStream = Some 0, cStream = 0, cFromBlockHeight = 100,
          cAddresses = [''a''], cRestartArgs = None, addressesGenerated = [],
          cLastSyncedBlockHeight = 100\<rparr>), [], None)
   \<and> snd (contRun [CAccept 100, CBeforeReconnect]
        \<lparr>continuousSyncStream = Some 0, cStream = 0, cFromBlockHeight = 100,
         cAddresses = [''a''], cRestartArgs = None, addressesGenerated = [],
         cLastSyncedBlockHeight = 100\<rparr>) = [UpdateArguments [''a''] 100 0]
   \<and> snd (contRun [CAccept 101, CBeforeReconnect]
        \<lparr>continuousSyncStream = Some 0, cStream = 0, cFromBlockHeight = 100,
         cAddresses = [''a''], cRestartArgs = None, addressesGenerated = [],
         cLastSyncedBlockHeight = 100\<rparr>) = [UpdateArguments [''a''] 102 0]"
  by (simp add: startContinuousSync_tx_def startContinuousSync_check_def
      acceptMerkleBlock_continuous_def newLatch_def beforeReconnectHandler_def Let_def)

text \<open>
  Claim C6, as the code has it. On a block not yet rejected: in a continuous stream,
  \<open>acceptMerkleBlock(height)\<close> with \<open>height < fromBlockHeight\<close> destroys the stream with an
  error, returns, and leaves the block unmarked; in a historical stream,
  \<open>acceptMerkleBlock(height, _)\<close> with \<open>height > fromBlockHeight + count - 1\<close> throws a range
  error to its caller and neither destroys nor cancels the stream.
\<close>

theorem acceptMerkleBlock_out_of_range:
  "(\<not> rejected l \<and> h < cFromBlockHeight c \<longrightarrow>
      acceptMerkleBlock_continuous h l c =
        ((l, c),
         [Destroy (cStream c)
            (ErrorWith ''Merkle block height is lesser than expected startBlockHeight: ''
               [h, cFromBlockHeight c])],
         None))
   \<and> (\<not> rejected l \<and> fromBlockHeight s + count s - 1 < h \<longrightarrow>
      snd (acceptMerkleBlock_historical h na l s) =
        ([], Some (ErrorWith ''Merkle block height is greater than expected range: ''
                     [h, fromBlockHeight s + count s - 1])))"
  by (simp add: acceptMerkleBlock_continuous_def acceptMerkleBlock_historical_def Let_def)

theorem acceptMerkleBlock_out_of_range_witness:
  "acceptMerkleBlock_continuous 50 newLatch
        \<lparr>continuousSyncStream = Some 0, cStream = 0, cFromBlockHeight = 100,
         cAddresses = [''a''], cRestartArgs = None, addressesGenerated = [],
         cLastSyncedBlockHeight = 100\<rparr> =
     ((newLatch,
       \<lparr>continuousSyncStream = Some 0, cStream = 0, cFromBlockHeight = 100,
         cAddresses = [''a''], cRestartArgs = None, addressesGenerated = [],
         cLastSyncedBlockHeight = 100\<rparr>),
      [Destroy 0 (ErrorWith ''Merkle block height is lesser than expected startBlockHeight: ''
                    [50, 100])], None)
   \<and> snd (acceptMerkleBlock_historical 7 (Some []) newLatch (subscribeWithRetries 1 0 1 5 [''a''] 0))
      = ([], Some (ErrorWith ''Merkle block height is greater than expected range: '' [7, 5]))"
  using acceptMerkleBlock_out_of_range[where l = newLatch and h = 50 and c =
        "\<lparr>continuousSyncStream = Some 0, cStream = 0, cFromBlockHeight = 100,
         cAddresses = [''a''], cRestartArgs = None, addressesGenerated = [],
         cLastSyncedBlockHeight = 100\<rparr>"]
    acceptMerkleBlock_out_of_range[where l = newLatch and h = 7
      and s = "subscribeWithRetries 1 0 1 5 [''a''] 0" and na = "Some []"]
  by (simp add: newLatch_def subscribeWithRetries_def)

text \<open>
  The claim as it is stated fails on a historical stream: for heights 1 to 5, accepting
  height 7 destroys nothing, throws to the caller, and has marked the block accepted.
\<close>

theorem acceptMerkleBlock_historical_counterexample:
  "acceptMerkleBlock_historical 7 (Some []) newLatch (subscribeWithRetries 1 0 1 5 [''a''] 0) =
     ((\<lparr>rejected = False, accepted = True\<rparr>,
       (subscribeWithRetries 1 0 1 5 [''a''] 0)\<lparr>lastSyncedBlockHeight := 7\<rparr>),
      [],
      Some (ErrorWith ''Merkle block height is greater than expected range: '' [7, 5]))"
  by (simp add: acceptMerkleBlock_historical_def newLatch_def subscribeWithRetries_def Let_def)

text \<open>
  Claim C7, as the code has it. For a merkle block of either variant: after a
  \<open>rejectMerkleBlock\<close> that took effect (the block was not accepted before; the stream is
  destroyed), \<open>acceptMerkleBlock\<close> throws and does nothing; after an \<open>acceptMerkleBlock\<close> on a
  block not rejected before, \<open>rejectMerkleBlock\<close> throws and does nothing, in the historical
  variant after any such call, in the continuous variant after one with
  \<open>height \<ge> fromBlockHeight\<close>.
\<close>

theorem merkle_block_double_commit:
  "(\<not> accepted l \<longrightarrow>
      snd (rejectMerkleBlock_historical e l s) = ([Destroy (stream s) e], None)
    \<and> snd (thenCall (rejectMerkleBlock_historical e l s) (acceptMerkleBlock_historical h na))
        = ([], Some (Error ''Unable to accept rejected merkle block'')))
   \<and> (\<not> rejected l \<longrightarrow>
      snd (thenCall (acceptMerkleBlock_historical h na l s) (rejectMerkleBlock_historical e))
        = ([], Some (Error ''Unable to reject accepted merkle block'')))
   \<and> (\<not> accepted l \<longrightarrow>
      snd (rejectMerkleBlock_continuous e l c) = ([Destroy (cStream c) e], None)
    \<and> snd (thenCall (rejectMerkleBlock_continuous e l c) (acceptMerkleBlock_continuous h))
        = ([], Some (Error ''Unable to accept rejected merkle block'')))
   \<and> (\<not> rejected l \<and> cFromBlockHeight c \<le> h \<longrightarrow>
      snd (snd (acceptMerkleBlock_continuous h l c)) = None
    \<and> snd (thenCall (acceptMerkleBlock_continuous h l c) (rejectMerkleBlock_continuous e))
        = ([], Some (Error ''Unable to reject accepted merkle block'')))"
  by (simp add: thenCall_def rejectMerkleBlock_historical_def acceptMerkleBlock_historical_def
      rejectMerkleBlock_continuous_def acceptMerkleBlock_continuous_def Let_def
      split: option.splits)

theorem merkle_block_double_commit_witness:
  "snd (thenCall (rejectMerkleBlock_historical (Error ''bad'') newLatch
                    (subscribeWithRetries 1 0 1 5 [''a''] 0))
                 (acceptMerkleBlock_historical 2 (Some [])))
     = ([], Some (Error ''Unable to accept rejected merkle block''))
   \<and> snd (thenCall (acceptMerkleBlock_historical 2 (Some []) newLatch
                    (subscribeWithRetries 1 0 1 5 [''a''] 0))
                 (rejectMerkleBlock_historical (Error ''bad'')))
     = ([], Some (Error ''Unable to reject accepted merkle block''))
   \<and> snd (thenCall (rejectMerkleBlock_continuous (Error ''bad'') newLatch
                    \<lparr>continuousSyncStream = Some 0, cStream = 0, cFromBlockHeight = 100,
                     cAddresses = [''a''], cRestartArgs = None, addressesGenerated = [],
                     cLastSyncedBlockHeight = 100\<rparr>)
                 (acceptMerkleBlock_continuous 100))
     = ([], Some (Error ''Unable to accept rejected merkle block''))
   \<and> snd (thenCall (acceptMerkleBlock_continuous 100 newLatch
                    \<lparr>continuousSyncStream = Some 0, cStream = 0, cFromBlockHeight = 100,
                     cAddresses = [''a''], cRestartArgs = None, addressesGenerated = [],
                     cLastSyncedBlockHeight = 100\<rparr>)
                 (rejectMerkleBlock_continuous (Error ''bad'')))
     = ([], Some (Error ''Unable to reject accepted merkle block''))"
  using merkle_block_double_commit[where l = newLatch and e = "Error ''bad''"
      and s = "subscribeWithRetries 1 0 1 5 [''a''] 0" and h = 2 and na = "Some []"]
    merkle_block_double_commit[where l = newLatch and e = "Error ''bad''" and h = 100
      and c = "\<lparr>continuousSyncStream = Some 0, cStream = 0, cFromBlockHeight = 100,
            cAddresses = [''a''], cRestartArgs = None, addressesGenerated = [],
            cLastSyncedBlockHeight = 100\<rparr>"]
  by (simp add: newLatch_def)

text \<open>
  The claim as it is stated fails on a continuous stream subscribed at 100: \<open>accept(50)\<close>
  destroys the stream without setting a flag, and the \<open>reject\<close> called after it does not
  throw; it destroys the stream once more.
\<close>

theorem merkle_block_double_commit_counterexample:
  "acceptMerkleBlock_continuous 50 newLatch
        \<lparr>continuousSyncStream = Some 0, cStream = 0, cFromBlockHeight = 100,
         cAddresses = [''a''], cRestartArgs = None, addressesGenerated = [],
         cLastSyncedBlockHeight = 100\<rparr> =
     ((newLatch,
       \<lparr>continuousSyncStream = Some 0, cStream = 0, cFromBlockHeight = 100,
         cAddresses = [''a''], cRestartArgs = None, addressesGenerated = [],
         cLastSyncedBlockHeight = 100\<rparr>),
      [Destroy 0 (ErrorWith ''Merkle block height is lesser than expected startBlockHeight: ''
                    [50, 100])], None)
   \<and> snd (thenCall (acceptMerkleBlock_continuous 50 newLatch
                    \<lparr>continuousSyncStream = Some 0, cStream = 0, cFromBlockHeight = 100,
                     cAddresses = [''a''], cRestartArgs = None, addressesGenerated = [],
                     cLastSyncedBlockHeight = 100\<rparr>)
                 (rejectMerkleBlock_continuous (Error ''bad'')))
     = ([Destroy 0 (Error ''bad'')], None)"
  by (simp add: thenCall_def acceptMerkleBlock_continuous_def rejectMerkleBlock_continuous_def
      newLatch_def)

text \<open>What the handlers do while \<open>restartArgs\<close> is set, one call at a time.\<close>

lemma pending_restart_handlers:
  "(restartArgs s = Some ra \<and> code e \<noteq> Some CANCELLED \<and> currentRetries s < maxRetries s \<longrightarrow>
      errorHandler_historical e s = (s, [openFrom ra]))
   \<and> (code e \<noteq> Some CANCELLED \<longrightarrow> errorHandler_continuous e c = (c, [EmitError e]))
   \<and> (cRestartArgs c \<noteq> None \<longrightarrow> beforeReconnectHandler c = (c, []))
   \<and> (restartArgs s = Some ra \<and> code e = Some CANCELLED \<longrightarrow>
        snd (errorHandler_historical e s) = [openFrom ra]
      \<and> restartArgs (fst (errorHandler_historical e s)) = Some ra
      \<and> restartArgs (fst (restartSettled r (fst (errorHandler_historical e s)))) = None)
   \<and> (cRestartArgs c = Some (fromH, addrs) \<and> code e = Some CANCELLED
        \<and> addrs \<noteq> [] \<and> 1 \<le> fromH \<longrightarrow>
        snd (errorHandler_continuous e c) = [CreateContinuousSyncStream addrs fromH 0]
      \<and> cRestartArgs (fst (errorHandler_continuous e c)) = Some (fromH, addrs)
      \<and> cRestartArgs (fst (continuousRestartSettled r (fst (errorHandler_continuous e c)))) = None)"
  by (auto simp add: errorHandler_historical_def errorHandler_continuous_def
      beforeReconnectHandler_def restartSettled_def continuousRestartSettled_def
      startContinuousSync_check_def Let_def split: sum.splits)

text \<open>
  Claim C8. While \<open>restartArgs\<close> is set no new restart is scheduled: the error handler does
  not overwrite it with retry arguments, the \<open>beforeReconnect\<close> handler returns without
  amending the subscription, and the stream is reopened from \<open>restartArgs\<close> at most once, on
  the \<open>CANCELLED\<close> that follows \<open>cancel()\<close>, after which \<open>restartArgs\<close> is cleared. The two
  handlers do as said, but the code does not keep the rest. \<open>acceptMerkleBlock\<close> does not
  look at a pending \<open>restartArgs\<close>: a second block accepted with a new address before the
  cancellation arrives schedules a second restart, cancels again and overwrites the first
  one's arguments, whose address never reaches a filter (in both variants). And
  \<open>restartArgs\<close> is cleared only when the reopening settles: in the historical variant an
  error with a retry left and the \<open>CANCELLED\<close> after it each reopen the stream from the same
  \<open>restartArgs\<close>.
\<close>

theorem pending_restart_rescheduled:
  "histRun [Accept 3 (Some [''b'']), Accept 4 (Some [''c'']),
            StreamError (GrpcError 1 ''cancelled'')]
     (subscribeWithRetries 1 0 1 10 [''a''] 0) =
   ((subscribeWithRetries 1 0 1 10 [''a''] 0)
      \<lparr>historicalSyncStream := None, lastSyncedBlockHeight := 4,
       restartArgs := Some (RestartArgs 5 6 [''a'', ''c''])\<rparr>,
    [Cancel 0, Cancel 0, CreateHistoricalSyncStream [''a'', ''c''] 5 6])
   \<and> restartArgs (fst (histRun [Accept 3 (Some [''b''])]
                         (subscribeWithRetries 1 0 1 10 [''a''] 0)))
       = Some (RestartArgs 4 7 [''a'', ''b''])
   \<and> contRun [CAppend [''b''], CAccept 101, CAppend [''c''], CAccept 102,
              CStreamError (GrpcError 1 ''cancelled'')]
        \<lparr>continuousSyncStream = Some 0, cStream = 0, cFromBlockHeight = 100,
         cAddresses = [''a''], cRestartArgs = None,
         addressesGenerated = [], cLastSyncedBlockHeight = 100\<rparr> =
      (\<lparr>continuousSyncStream = None, cStream = 0, cFromBlockHeight = 100,
         cAddresses = [''a''], cRestartArgs = Some (103, [''a'', ''c'']),
         addressesGenerated = [], cLastSyncedBlockHeight = 102\<rparr>,
       [Cancel 0, Cancel 0, CreateContinuousSyncStream [''a'', ''c''] 103 0])
   \<and> histRun [Accept 3 (Some [''b'']), StreamError (Error ''Fake stream error''),
            StreamError (GrpcError 1 ''cancelled'')]
     (subscribeWithRetries 1 0 1 10 [''a''] 0) =
   ((subscribeWithRetries 1 0 1 10 [''a''] 0)
      \<lparr>historicalSyncStream := None, lastSyncedBlockHeight := 3,
       restartArgs := Some (RestartArgs 4 7 [''a'', ''b''])\<rparr>,
    [Cancel 0, CreateHistoricalSyncStream [''a'', ''b''] 4 7,
     CreateHistoricalSyncStream [''a'', ''b''] 4 7])"
  by (simp add: subscribeWithRetries_def acceptMerkleBlock_historical_def newLatch_def
      errorHandler_historical_def openFrom_def CANCELLED_def Let_def
      appendAddresses_def acceptMerkleBlock_continuous_def errorHandler_continuous_def
      startContinuousSync_check_def)

end
